theory Spec2Isabelle
  imports Main "HOL-Library.Multiset"
begin

section \<open>Python strings\<close>

text \<open>
  Strings are byte lists. Only the string methods the pipeline calls are modelled, each
  under the name of the Python method with the prefix \<open>str_\<close>; \<open>py_in p s\<close> is the
  Python expression \<^verbatim>\<open>p in s\<close> on two strings. \<open>str_lower\<close> lowers the ASCII letters,
  which is what \<^verbatim>\<open>str.lower()\<close> does on ASCII text.
\<close>

definition ascii_upper :: string where
  "ascii_upper = ''ABCDEFGHIJKLMNOPQRSTUVWXYZ''"

definition ascii_lower :: string where
  "ascii_lower = ''abcdefghijklmnopqrstuvwxyz''"

definition lower_char :: "char \<Rightarrow> char" where
  "lower_char c = (case map_of (zip ascii_upper ascii_lower) c of Some d \<Rightarrow> d | None \<Rightarrow> c)"

definition str_lower :: "string \<Rightarrow> string" where
  "str_lower s = map lower_char s"

definition str_startswith :: "string \<Rightarrow> string \<Rightarrow> bool" where
  "str_startswith s p = (take (length p) s = p)"

fun py_in :: "string \<Rightarrow> string \<Rightarrow> bool" where
  "py_in p [] = (p = [])"
| "py_in p (c # cs) = (str_startswith (c # cs) p \<or> py_in p cs)"

text \<open>\<^verbatim>\<open>s[s.find(p):]\<close> for a \<open>p\<close> that occurs in \<open>s\<close>: the suffix from the first occurrence.\<close>

fun from_first :: "string \<Rightarrow> string \<Rightarrow> string" where
  "from_first p [] = []"
| "from_first p (c # cs) = (if str_startswith (c # cs) p then c # cs else from_first p cs)"

text \<open>
  \<^verbatim>\<open>s.split(p)[1]\<close> followed by \<^verbatim>\<open>.split(q)[0]\<close> needs the text after the first occurrence
  of \<open>p\<close> and the text before the first occurrence of \<open>q\<close>.
\<close>

fun after_first :: "string \<Rightarrow> string \<Rightarrow> string" where
  "after_first p [] = []"
| "after_first p (c # cs) =
     (if str_startswith (c # cs) p then drop (length p) (c # cs) else after_first p cs)"

fun before_first :: "string \<Rightarrow> string \<Rightarrow> string" where
  "before_first p [] = []"
| "before_first p (c # cs) =
     (if str_startswith (c # cs) p then [] else c # before_first p cs)"

definition is_space :: "char \<Rightarrow> bool" where
  "is_space c = (c \<in> set [CHR '' '', CHR 0x09, CHR 0x0A, CHR 0x0B, CHR 0x0C, CHR 0x0D])"

definition str_strip :: "string \<Rightarrow> string" where
  "str_strip s = rev (dropWhile is_space (rev (dropWhile is_space s)))"

text \<open>
  \<^verbatim>\<open>s.replace(old, new)\<close> for a non-empty \<open>old\<close>: left to right, occurrences do not overlap.
  The recursion runs on the text still to scan, with the length of \<open>old\<close> fixed.
\<close>

fun str_replace_aux :: "string \<Rightarrow> string \<Rightarrow> nat \<Rightarrow> string \<Rightarrow> string" where
  "str_replace_aux old new skip [] = []"
| "str_replace_aux old new (Suc k) (c # cs) = str_replace_aux old new k cs"
| "str_replace_aux old new 0 (c # cs) =
     (if str_startswith (c # cs) old
      then new @ str_replace_aux old new (length old - 1) cs
      else c # str_replace_aux old new 0 cs)"

definition str_replace :: "string \<Rightarrow> string \<Rightarrow> string \<Rightarrow> string" where
  "str_replace s old new = str_replace_aux old new 0 s"

text \<open>The code-fence clean-up shared by the planner, the generator and the combiner.\<close>

definition strip_code_fence :: "string \<Rightarrow> string \<Rightarrow> string" where
  "strip_code_fence tagged s =
     (if py_in tagged s then str_strip (before_first ''```'' (after_first tagged s))
      else if py_in ''```'' s then str_strip (before_first ''```'' (after_first ''```'' s))
      else s)"

fun digit_char :: "nat \<Rightarrow> char" where
  "digit_char n = (''0123456789'' ! (n mod 10))"

fun str_of_nat :: "nat \<Rightarrow> string" where
  "str_of_nat n = (if n < 10 then [digit_char n] else str_of_nat (n div 10) @ [digit_char n])"

section \<open>Errors\<close>

text \<open>
  A Python exception, as far as this code looks at it: whether it is a
  \<^verbatim>\<open>requests.exceptions.HTTPError\<close> (which \<^verbatim>\<open>except\<close> clause catches it), the name of its
  type, \<^verbatim>\<open>str(error)\<close>, the attributes \<^verbatim>\<open>status_code\<close> and \<^verbatim>\<open>status\<close> (\<open>None\<close> when
  absent or not a number), its \<^verbatim>\<open>args\<close>, \<^verbatim>\<open>str(error.message)\<close> when the attribute exists,
  and \<^verbatim>\<open>error.response.status_code\<close> when both attributes exist.
  An argument is seen through \<^verbatim>\<open>str(arg)\<close> and, when it is a dict whose key \<^verbatim>\<open>'error'\<close>
  holds a dict, through that nested dict's \<^verbatim>\<open>code\<close> and \<^verbatim>\<open>message\<close> (a string).
\<close>

record nested_error =
  ne_code :: "int option"
  ne_message :: string

record exc_arg =
  arg_str :: string
  arg_error :: "nested_error option"

record py_exc =
  exc_is_http :: bool
  exc_type_name :: string
  exc_str :: string
  exc_status_code :: "int option"
  exc_status :: "int option"
  exc_args :: "exc_arg list"
  exc_message :: "string option"
  exc_response_status :: "int option"

text \<open>\<^verbatim>\<open>Exception(msg)\<close>.\<close>

definition Exception :: "string \<Rightarrow> py_exc" where
  "Exception msg =
     \<lparr>exc_is_http = False, exc_type_name = ''Exception'', exc_str = msg,
      exc_status_code = None, exc_status = None,
      exc_args = [\<lparr>arg_str = msg, arg_error = None\<rparr>],
      exc_message = None, exc_response_status = None\<rparr>"

section \<open>Key managers (utils/api\_keys.py)\<close>

record key_manager =
  km_keys :: "string list"
  current_key_index :: nat

definition get_key :: "key_manager \<Rightarrow> string option" where
  "get_key m = (if km_keys m = [] then None else Some (km_keys m ! current_key_index m))"

definition get_all_keys :: "key_manager \<Rightarrow> string list" where
  "get_all_keys m = km_keys m"

definition rotate_key :: "key_manager \<Rightarrow> bool \<times> key_manager" where
  "rotate_key m =
     (if length (km_keys m) \<le> 1 then (False, m)
      else (True, m\<lparr>current_key_index := (current_key_index m + 1) mod length (km_keys m)\<rparr>))"

definition has_multiple_keys :: "key_manager \<Rightarrow> bool" where
  "has_multiple_keys m = (length (km_keys m) > 1)"

text \<open>The cursor stays inside the pool: the invariant of the data model.\<close>

definition km_ok :: "key_manager \<Rightarrow> bool" where
  "km_ok m = (km_keys m = [] \<or> current_key_index m < length (km_keys m))"

subsection \<open>\<^verbatim>\<open>OpenAIKeyManager.is_rate_limit_error\<close>\<close>

definition openai_arg_hit :: "exc_arg \<Rightarrow> bool" where
  "openai_arg_hit a =
     (if py_in ''429'' (arg_str a) \<or> py_in ''rate limit'' (str_lower (arg_str a))
         \<or> py_in ''quota'' (str_lower (arg_str a)) then True
      else (case arg_error a of
              None \<Rightarrow> False
            | Some nested \<Rightarrow>
                ne_code nested = Some 429 \<or> py_in ''rate limit'' (str_lower (ne_message nested))))"

definition openai_message_hit :: "py_exc \<Rightarrow> bool" where
  "openai_message_hit e =
     (case exc_message e of
        None \<Rightarrow> False
      | Some m \<Rightarrow> py_in ''429'' m \<or> py_in ''rate limit'' (str_lower m))"

definition openai_is_rate_limit_error :: "py_exc \<Rightarrow> bool" where
  "openai_is_rate_limit_error e =
     (if py_in ''429'' (exc_str e) then True
      else if py_in ''rate limit exceeded'' (str_lower (exc_str e))
              \<or> py_in ''openai_ratelimit_error'' (str_lower (exc_type_name e)) then True
      else if exc_status_code e = Some 429 then True
      else if exc_status e = Some 429 then True
      else if list_ex openai_arg_hit (exc_args e) then True
      else if openai_message_hit e then True
      else False)"

text \<open>
  The same chain of tests, returning which \<^verbatim>\<open>return True\<close> of the source is reached:
  the order in which the function inspects the error.
\<close>

datatype openai_check =
  Text_429 | Text_phrase_or_type | Field_status_code | Field_status | Args_scan | Message_attr

definition openai_deciding_check :: "py_exc \<Rightarrow> openai_check option" where
  "openai_deciding_check e =
     (if py_in ''429'' (exc_str e) then Some Text_429
      else if py_in ''rate limit exceeded'' (str_lower (exc_str e))
              \<or> py_in ''openai_ratelimit_error'' (str_lower (exc_type_name e))
           then Some Text_phrase_or_type
      else if exc_status_code e = Some 429 then Some Field_status_code
      else if exc_status e = Some 429 then Some Field_status
      else if list_ex openai_arg_hit (exc_args e) then Some Args_scan
      else if openai_message_hit e then Some Message_attr
      else None)"

subsection \<open>\<^verbatim>\<open>OpenRouterKeyManager.is_rate_limit_error\<close>\<close>

definition openrouter_is_rate_limit_error :: "py_exc \<Rightarrow> bool" where
  "openrouter_is_rate_limit_error e =
     (if py_in ''429 client error'' (str_lower (exc_str e))
         \<or> py_in ''rate limit exceeded'' (str_lower (exc_str e)) then True
      else if exc_response_status e = Some 429 then True
      else if py_in ''x-ratelimit-remaining'' (str_lower (exc_str e))
              \<or> py_in ''openrouter_ratelimit'' (str_lower (exc_str e)) then True
      else False)"

datatype openrouter_check = Text_client_error | Field_response_status | Text_header

definition openrouter_deciding_check :: "py_exc \<Rightarrow> openrouter_check option" where
  "openrouter_deciding_check e =
     (if py_in ''429 client error'' (str_lower (exc_str e))
         \<or> py_in ''rate limit exceeded'' (str_lower (exc_str e)) then Some Text_client_error
      else if exc_response_status e = Some 429 then Some Field_response_status
      else if py_in ''x-ratelimit-remaining'' (str_lower (exc_str e))
              \<or> py_in ''openrouter_ratelimit'' (str_lower (exc_str e)) then Some Text_header
      else None)"

section \<open>The external world\<close>

text \<open>
  One call of \<^verbatim>\<open>requests.post\<close> on the chat-completions endpoint, followed by
  \<^verbatim>\<open>raise_for_status\<close>, \<^verbatim>\<open>response.json()\<close> and the extraction of
  \<^verbatim>\<open>choices[0].message.content\<close>, either raises or yields the content (the empty string
  when there is none). What is sent is the key of the \<^verbatim>\<open>Authorization\<close> header, the
  texts of the messages and \<^verbatim>\<open>max_tokens\<close>.
\<close>

record text_request =
  tr_key :: string
  tr_messages :: "string list"
  tr_max_tokens :: nat

datatype http_result = Raises py_exc | Content string

text \<open>
  One image attempt: \<^verbatim>\<open>images.generate\<close>, then the download and the write of the file.
  Anything that raises inside the \<^verbatim>\<open>try\<close> is one outcome, a response without data
  another, a saved file the third. The client is seen through the key it was built with.
\<close>

record image_request =
  ir_key :: "string option"
  ir_prompt :: string

datatype image_result = Image_raises py_exc | Image_no_data | Image_saved

text \<open>
  A component descriptor is a JSON object of the plan. A field is \<open>None\<close> when the key is
  absent; a field that is present has the JSON type the planning prompt prescribes.
\<close>

record descriptor =
  d_name :: "string option"
  d_purpose :: "string option"
  d_order :: "int option"
  d_needs_image :: "bool option"
  d_image_prompt :: "string option"
  d_image_dimensions :: "string option"
  d_image_aspect_ratio :: "string option"
  d_image_usage :: "string option"
  d_design_style :: "string option"
  d_layout_type :: "string option"
  d_visual_features :: "string option"

definition empty_descriptor :: descriptor where
  "empty_descriptor =
     \<lparr>d_name = None, d_purpose = None, d_order = None, d_needs_image = None,
      d_image_prompt = None, d_image_dimensions = None, d_image_aspect_ratio = None,
      d_image_usage = None, d_design_style = None, d_layout_type = None,
      d_visual_features = None\<rparr>"

record hero_image_info =
  hi_purpose :: string
  hi_prompt :: string
  hi_dimensions :: string
  hi_aspect_ratio :: string

record image_plan =
  hero_image :: "hero_image_info option"

record plan =
  all_components :: "descriptor list option"
  dynamic_components :: "descriptor list option"
  image_plan :: "image_plan option"
  component_order :: "int list option"
  plan_notes :: "string option"

type_synonym form_data = "string \<Rightarrow> string option"

text \<open>\<^verbatim>\<open>d.get(k, default)\<close> on an optional field.\<close>

definition dget :: "'a option \<Rightarrow> 'a \<Rightarrow> 'a" where
  "dget v dflt = (case v of None \<Rightarrow> dflt | Some x \<Rightarrow> x)"

text \<open>
  What \<^verbatim>\<open>generate_all_components\<close> prints as it goes, kept as a trace: a component handed
  to \<^verbatim>\<open>generate_component\<close> by the main loop together with the image list it is given, an
  image reference appended to the image list, and a component handed to
  \<^verbatim>\<open>generate_component\<close> again after the loop.
\<close>

datatype event =
  Component_call string "string list" | Image_appended string | Regenerating string "string list"

text \<open>
  The state the stages share: the module-level key managers that \<^verbatim>\<open>get_openrouter_key\<close>,
  \<^verbatim>\<open>rotate_openrouter_key\<close>, \<^verbatim>\<open>has_multiple_keys_openrouter\<close> (and the OpenAI ones) work on,
  the managers inside \<^verbatim>\<open>_key_manager\<close> (separate objects, loaded from the same environment
  variables), the calls made so far, the seconds slept and the trace.
\<close>

record world =
  openrouter_key_manager :: key_manager
  consolidated_openrouter :: key_manager
  openai_key_manager :: key_manager
  consolidated_openai :: key_manager
  text_calls :: "text_request list"
  image_calls :: "image_request list"
  slept :: nat
  trace :: "event list"

definition get_openrouter_key :: "world \<Rightarrow> string option" where
  "get_openrouter_key w = get_key (openrouter_key_manager w)"

definition rotate_openrouter_key :: "world \<Rightarrow> bool \<times> world" where
  "rotate_openrouter_key w =
     (fst (rotate_key (openrouter_key_manager w)),
      w\<lparr>openrouter_key_manager := snd (rotate_key (openrouter_key_manager w))\<rparr>)"

definition has_multiple_keys_openrouter :: "world \<Rightarrow> bool" where
  "has_multiple_keys_openrouter w = has_multiple_keys (openrouter_key_manager w)"

definition is_rate_limit_error_openrouter :: "py_exc \<Rightarrow> bool" where
  "is_rate_limit_error_openrouter e = openrouter_is_rate_limit_error e"

definition get_openai_key :: "world \<Rightarrow> string option" where
  "get_openai_key w = get_key (openai_key_manager w)"

definition rotate_openai_key :: "world \<Rightarrow> bool \<times> world" where
  "rotate_openai_key w =
     (fst (rotate_key (openai_key_manager w)),
      w\<lparr>openai_key_manager := snd (rotate_key (openai_key_manager w))\<rparr>)"

definition has_multiple_keys_openai :: "world \<Rightarrow> bool" where
  "has_multiple_keys_openai w = has_multiple_keys (openai_key_manager w)"

definition is_rate_limit_error_openai :: "py_exc \<Rightarrow> bool" where
  "is_rate_limit_error_openai e = openai_is_rate_limit_error e"

definition sleep :: "nat \<Rightarrow> world \<Rightarrow> world" where
  "sleep n w = w\<lparr>slept := slept w + n\<rparr>"

text \<open>
  The collaborators: the text provider (its answer may depend on how many calls came
  before and on the request), \<^verbatim>\<open>json.loads\<close> on the planner's answer, the image provider,
  the prompt templates (their arguments that stay the same during a run, such as the logo
  and the theme colour, are left out), and the text added to the messages for a Bootstrap
  documentation file (\<open>None\<close> when the file cannot be read).
\<close>

record design_info =
  di_design_style :: string
  di_layout_type :: string
  di_visual_features :: string
  di_image_dimensions :: string
  di_image_usage :: string

record component_request =
  cr_name :: string
  cr_purpose :: string
  cr_image_urls :: "string list"
  cr_design_info :: "design_info option"

record collab =
  post :: "nat \<Rightarrow> text_request \<Rightarrow> http_result"
  json_loads :: "string \<Rightarrow> py_exc + plan"
  images_generate :: "nat \<Rightarrow> image_request \<Rightarrow> image_result"
  get_planning_prompt :: "form_data \<Rightarrow> string"
  get_component_prompt :: "form_data \<Rightarrow> component_request \<Rightarrow> string"
  get_combination_prompt :: "form_data \<Rightarrow> (string \<times> string) list \<Rightarrow> string list \<Rightarrow> string"
  read_bootstrap_file :: "string \<Rightarrow> string option"

text \<open>How one pass through the body of a \<^verbatim>\<open>for attempt in range(...)\<close> loop ends.\<close>

datatype 'a step = Continue world | Return 'a world | Raise py_exc world

fun step_world :: "'a step \<Rightarrow> world" where
  "step_world (Continue w) = w"
| "step_world (Return x w) = w"
| "step_world (Raise e w) = w"

section \<open>The planner (utils/component\_planner.py)\<close>

definition KeyError :: "string \<Rightarrow> py_exc" where
  "KeyError k =
     \<lparr>exc_is_http = False, exc_type_name = ''KeyError'', exc_str = CHR 0x27 # k @ [CHR 0x27],
      exc_status_code = None, exc_status = None,
      exc_args = [\<lparr>arg_str = k, arg_error = None\<rparr>],
      exc_message = None, exc_response_status = None\<rparr>"

definition order_in_3_to_6 :: "descriptor \<Rightarrow> bool" where
  "order_in_3_to_6 c = (dget (d_order c) 0 \<in> set [3, 4, 5, 6])"

text \<open>The loop that fills \<^verbatim>\<open>image_plan\<close>: a later Hero entry overwrites an earlier one.\<close>

definition image_plan_step :: "image_plan \<Rightarrow> descriptor \<Rightarrow> image_plan" where
  "image_plan_step ip cmp =
     (if dget (d_needs_image cmp) False then
        (if dget (d_name cmp) [] = ''Hero'' then
           ip\<lparr>hero_image := Some
             \<lparr>hi_purpose = ''Hero section banner'',
              hi_prompt = dget (d_image_prompt cmp) [],
              hi_dimensions = dget (d_image_dimensions cmp) ''1920x600'',
              hi_aspect_ratio = dget (d_image_aspect_ratio cmp) ''16:5''\<rparr>\<rparr>
         else ip)
      else ip)"

text \<open>
  The body of the \<^verbatim>\<open>try\<close> of one attempt, from the answer of the provider on: the check
  for a content, the clean-up, \<^verbatim>\<open>json.loads\<close>, the two validations, the two derived
  fields, and the log line that reads \<^verbatim>\<open>c['name']\<close> of every component.
\<close>

definition plan_attempt :: "collab \<Rightarrow> http_result \<Rightarrow> py_exc + plan" where
  "plan_attempt E r =
     (case r of
        Raises e \<Rightarrow> Inl e
      | Content c \<Rightarrow>
          if c = [] then Inl (Exception ''No response from OpenRouter/Gemini'')
          else
            (case json_loads E (strip_code_fence ''```json'' (str_strip c)) of
               Inl e \<Rightarrow> Inl e
             | Inr plan_data \<Rightarrow>
                 (case all_components plan_data of
                    None \<Rightarrow> Inl (Exception ''Invalid plan: missing all_components'')
                  | Some comps \<Rightarrow>
                      if length comps \<noteq> 8 then
                        Inl (Exception (''Invalid plan: expected 8 components, got ''
                                        @ str_of_nat (length comps)))
                      else if list_ex (\<lambda>c. d_name c = None) comps then Inl (KeyError ''name'')
                      else Inr (plan_data
                             \<lparr>dynamic_components := Some (filter order_in_3_to_6 comps),
                              image_plan := Some (foldl image_plan_step \<lparr>hero_image = None\<rparr> comps)\<rparr>))))"

text \<open>
  One pass through the body of the retry loop. The request always carries
  \<open>openrouter_key\<close>, the key read before the loop: the loop rotates the manager's cursor
  but never reads the key again.
\<close>

definition plan_step ::
  "collab \<Rightarrow> string \<Rightarrow> string \<Rightarrow> nat \<Rightarrow> nat \<Rightarrow> world \<Rightarrow> plan step" where
  "plan_step E openrouter_key planning_prompt max_retries attempt w =
     (let req = \<lparr>tr_key = openrouter_key, tr_messages = [planning_prompt], tr_max_tokens = 4000\<rparr>;
          w1 = w\<lparr>text_calls := text_calls w @ [req]\<rparr>
      in case plan_attempt E (post E (length (text_calls w)) req) of
           Inr plan_data \<Rightarrow> Return plan_data w1
         | Inl e \<Rightarrow>
             if exc_is_http e then
               (if openrouter_is_rate_limit_error e
                   \<and> has_multiple_keys_openrouter w1 \<and> fst (rotate_openrouter_key w1)
                then Continue (sleep 5 (snd (rotate_openrouter_key w1)))
                else if attempt = max_retries - 1 then
                  Raise (Exception (''Failed to plan website components after ''
                           @ str_of_nat max_retries @ '' attempts: '' @ exc_str e)) w1
                else Raise (Exception (''Failed to plan website components: '' @ exc_str e)) w1)
             else
               (if is_rate_limit_error_openrouter e \<and> has_multiple_keys_openrouter w1
                   \<and> attempt < max_retries - 1
                then Continue (sleep 5 (snd (rotate_openrouter_key w1)))
                else if attempt < max_retries - 1 then
                  (if has_multiple_keys_openrouter w1
                   then Continue (sleep 5 (snd (rotate_openrouter_key w1)))
                   else Continue w1)
                else Raise e w1))"

function plan_loop ::
  "collab \<Rightarrow> string \<Rightarrow> string \<Rightarrow> nat \<Rightarrow> nat \<Rightarrow> world \<Rightarrow> (py_exc + plan) \<times> world" where
  "plan_loop E openrouter_key planning_prompt max_retries attempt w =
     (if attempt < max_retries then
        (case plan_step E openrouter_key planning_prompt max_retries attempt w of
           Continue w' \<Rightarrow> plan_loop E openrouter_key planning_prompt max_retries (Suc attempt) w'
         | Return plan_data w' \<Rightarrow> (Inr plan_data, w')
         | Raise e w' \<Rightarrow> (Inl e, w'))
      else (Inl (Exception ''All planning attempts failed''), w))"
  by pat_completeness auto
termination
  by (relation "measure (\<lambda>(E, k, p, max_retries, attempt, w). max_retries - attempt)") auto

declare plan_loop.simps [simp del]

definition get_fallback_plan :: "form_data \<Rightarrow> plan" where
  "get_fallback_plan form_data =
     (let business_category = dget (form_data ''businessCategory'') ''Business'';
          business_sub_category = dget (form_data ''businessSubCategory'') ''Services'';
          theme_color = dget (form_data ''themeColor'') ''#4f46e5'';
          comps =
            [empty_descriptor
               \<lparr>d_name := Some ''Navigation'',
                d_purpose := Some ''Navigation bar with logo and menu links'',
                d_order := Some 1,
                d_needs_image := Some False,
                d_design_style := Some ''Modern sticky navigation''\<rparr>,
             empty_descriptor
               \<lparr>d_name := Some ''Hero'',
                d_purpose := Some ''Hero section with banner'',
                d_order := Some 2,
                d_needs_image := Some True,
                d_image_prompt := Some (''Professional rectangular hero banner (1920x600) for ''
                  @ business_category @ '' - '' @ business_sub_category
                  @ '' industry. Modern, sleek, professional quality with theme color ''
                  @ theme_color @ ''.''),
                d_image_dimensions := Some ''1920x600'',
                d_image_aspect_ratio := Some ''16:5'',
                d_image_usage := Some ''Full-width hero banner'',
                d_design_style := Some ''Modern hero with gradient overlay''\<rparr>,
             empty_descriptor
               \<lparr>d_name := Some ''Services'',
                d_purpose := Some ''Showcase business services'',
                d_order := Some 3,
                d_needs_image := Some True,
                d_image_prompt := Some (''Professional business image (1200x800) for ''
                  @ business_category @ '' - '' @ business_sub_category
                  @ '' services. Modern, business-appropriate, theme color ''
                  @ theme_color @ ''.''),
                d_image_dimensions := Some ''1200x800'',
                d_image_aspect_ratio := Some ''3:2'',
                d_image_usage := Some ''Side image or background'',
                d_design_style := Some ''Card-based layout'',
                d_layout_type := Some ''Grid layout'',
                d_visual_features := Some ''Rounded corners, shadows''\<rparr>,
             empty_descriptor
               \<lparr>d_name := Some ''About'',
                d_purpose := Some ''About the business'',
                d_order := Some 4,
                d_needs_image := Some False,
                d_design_style := Some ''Split-screen layout'',
                d_layout_type := Some ''Two-column'',
                d_visual_features := Some ''Clean typography''\<rparr>,
             empty_descriptor
               \<lparr>d_name := Some ''Features'',
                d_purpose := Some ''Key features or benefits'',
                d_order := Some 5,
                d_needs_image := Some True,
                d_image_prompt := Some (''Professional feature image (800x600) for ''
                  @ business_category @ '' - '' @ business_sub_category
                  @ ''. Modern, illustrative, theme color '' @ theme_color @ ''.''),
                d_image_dimensions := Some ''800x600'',
                d_image_aspect_ratio := Some ''4:3'',
                d_image_usage := Some ''Feature illustration'',
                d_design_style := Some ''Glassmorphism'',
                d_layout_type := Some ''Three-column grid'',
                d_visual_features := Some ''Glass effect, blur''\<rparr>,
             empty_descriptor
               \<lparr>d_name := Some ''Testimonials'',
                d_purpose := Some ''Customer testimonials'',
                d_order := Some 6,
                d_needs_image := Some False,
                d_design_style := Some ''Carousel layout'',
                d_layout_type := Some ''Centered cards'',
                d_visual_features := Some ''Quotes, avatars''\<rparr>,
             empty_descriptor
               \<lparr>d_name := Some ''Contact'',
                d_purpose := Some ''Contact form with mailto'',
                d_order := Some 7,
                d_needs_image := Some False,
                d_design_style := Some ''Modern form design''\<rparr>,
             empty_descriptor
               \<lparr>d_name := Some ''Footer'',
                d_purpose := Some ''Footer with social links'',
                d_order := Some 8,
                d_needs_image := Some False,
                d_design_style := Some ''Dark footer''\<rparr>]
      in \<lparr>all_components = Some comps,
          dynamic_components = Some (filter order_in_3_to_6 comps),
          image_plan = Some \<lparr>hero_image = Some
            \<lparr>hi_purpose = ''Hero section banner'',
             hi_prompt = ''Professional rectangular hero image for '' @ business_category
               @ '' - '' @ business_sub_category @ '' industry'',
             hi_dimensions = ''1920x600'',
             hi_aspect_ratio = ''16:5''\<rparr>\<rparr>,
          component_order = Some [1, 2, 3, 4, 5, 6, 7, 8],
          plan_notes = Some (''Fallback plan for '' @ business_category @ '' - ''
            @ business_sub_category)\<rparr>)"

text \<open>
  The part of \<^verbatim>\<open>plan_website_components\<close> inside the outer \<^verbatim>\<open>try\<close>, and the function
  itself: both outer handlers return the fallback plan.
\<close>

definition plan_try :: "collab \<Rightarrow> form_data \<Rightarrow> world \<Rightarrow> (py_exc + plan) \<times> world" where
  "plan_try E form_data w =
     (case get_openrouter_key w of
        None \<Rightarrow> (Inl (Exception ''OPENROUTER_API_KEY not configured''), w)
      | Some openrouter_key \<Rightarrow>
          if openrouter_key = [] then (Inl (Exception ''OPENROUTER_API_KEY not configured''), w)
          else
            (let planning_prompt = get_planning_prompt E form_data;
                 all_keys = get_all_keys (consolidated_openrouter w);
                 max_retries = (if all_keys \<noteq> [] then length all_keys else 1)
             in plan_loop E openrouter_key planning_prompt max_retries 0 w))"

definition plan_website_components :: "collab \<Rightarrow> form_data \<Rightarrow> world \<Rightarrow> plan \<times> world" where
  "plan_website_components E form_data w =
     (case plan_try E form_data w of
        (Inr plan_data, w') \<Rightarrow> (plan_data, w')
      | (Inl e, w') \<Rightarrow> (get_fallback_plan form_data, w'))"

section \<open>The component generator (utils/component\_generator.py)\<close>

subsection \<open>\<^verbatim>\<open>generate_image_for_component\<close>\<close>

definition hero_fallback_path :: string where
  "hero_fallback_path = ''/static/generated/hero_20251105_142354_0.png''"

definition additional_fallback_path :: string where
  "additional_fallback_path = ''/static/generated/additional_20251106_160031_2.png''"

definition comp_slug :: "string \<Rightarrow> string" where
  "comp_slug comp_name = str_replace (str_replace (str_lower comp_name) '' '' ''_'') ''-'' ''_''"

text \<open>
  How one pass through the image loop ends: the next attempt (with the client to use),
  the \<^verbatim>\<open>return\<close> of the saved image, or \<^verbatim>\<open>break\<close>.
\<close>

datatype image_step = Image_continue "string option" world | Image_return string world | Image_break world


definition image_step ::
  "collab \<Rightarrow> string \<Rightarrow> string \<Rightarrow> string \<Rightarrow> nat \<Rightarrow> nat \<Rightarrow> string option \<Rightarrow> world \<Rightarrow> image_step" where
  "image_step E comp_name image_prompt timestamp max_retries attempt openai_client w =
     (let req = \<lparr>ir_key = openai_client, ir_prompt = image_prompt\<rparr>;
          w1 = w\<lparr>image_calls := image_calls w @ [req]\<rparr>
      in case images_generate E (length (image_calls w)) req of
           Image_saved \<Rightarrow>
             Image_return (''/static/generated/'' @ comp_slug comp_name @ ''_'' @ timestamp @ ''.png'') w1
         | Image_no_data \<Rightarrow> Image_continue openai_client w1
         | Image_raises e \<Rightarrow>
             if is_rate_limit_error_openai e \<and> has_multiple_keys_openai w1
                \<and> attempt < max_retries - 1
             then Image_continue (get_openai_key (snd (rotate_openai_key w1)))
                    (sleep 5 (snd (rotate_openai_key w1)))
             else if has_multiple_keys_openai w1 \<and> attempt < max_retries - 1
             then Image_continue (get_openai_key (snd (rotate_openai_key w1)))
                    (sleep 5 (snd (rotate_openai_key w1)))
             else Image_break w1)"

function image_loop ::
  "collab \<Rightarrow> string \<Rightarrow> string \<Rightarrow> string \<Rightarrow> nat \<Rightarrow> nat \<Rightarrow> string option \<Rightarrow> world
     \<Rightarrow> string option \<times> world" where
  "image_loop E comp_name image_prompt timestamp max_retries attempt openai_client w =
     (if attempt < max_retries then
        (case image_step E comp_name image_prompt timestamp max_retries attempt openai_client w of
           Image_continue client' w' \<Rightarrow>
             image_loop E comp_name image_prompt timestamp max_retries (Suc attempt) client' w'
         | Image_return url w' \<Rightarrow> (Some url, w')
         | Image_break w' \<Rightarrow> (None, w'))
      else (None, w))"
  by pat_completeness auto
termination
  by (relation "measure (\<lambda>(E, n, p, t, max_retries, attempt, c, w). max_retries - attempt)") auto

declare image_loop.simps [simp del]

text \<open>
  The early \<^verbatim>\<open>return None\<close> for an empty prompt stands before the loop and before the
  fallback paths. After the loop, the fallback path is returned.
\<close>

definition generate_image_for_component ::
  "collab \<Rightarrow> descriptor \<Rightarrow> string \<Rightarrow> string option \<Rightarrow> world \<Rightarrow> string option \<times> world" where
  "generate_image_for_component E component_info timestamp openai_client w =
     (let comp_name = dget (d_name component_info) ''component'';
          image_prompt = dget (d_image_prompt component_info) []
      in if image_prompt = [] then (None, w)
         else
           (let all_openai_keys = get_all_keys (consolidated_openai w);
                max_retries = (if all_openai_keys \<noteq> [] then length all_openai_keys else 1)
            in case image_loop E comp_name image_prompt timestamp max_retries 0 openai_client w of
                 (Some local_image_url, w') \<Rightarrow> (Some local_image_url, w')
               | (None, w') \<Rightarrow>
                   if comp_name = ''Hero'' then (Some hero_fallback_path, w')
                   else (Some additional_fallback_path, w')))"

subsection \<open>\<^verbatim>\<open>generate_component\<close>\<close>

definition is_permission_error :: "py_exc \<Rightarrow> bool" where
  "is_permission_error e =
     (if py_in ''permission'' (str_lower (exc_str e))
         \<or> py_in ''permission_denied'' (str_lower (exc_str e)) then True
      else if py_in ''403'' (str_lower (exc_str e)) then True
      else list_ex (\<lambda>a. py_in ''permission'' (str_lower (arg_str a))
                        \<or> py_in ''403'' (str_lower (arg_str a))) (exc_args e))"

definition build_contents :: "collab \<Rightarrow> string \<Rightarrow> string list \<Rightarrow> bool \<Rightarrow> string list" where
  "build_contents E component_prompt bootstrap_files include_bootstrap =
     (if include_bootstrap \<and> bootstrap_files \<noteq> []
      then component_prompt # List.map_filter (read_bootstrap_file E) bootstrap_files
      else [component_prompt])"

text \<open>
  One pass through the retry loop of \<^verbatim>\<open>generate_component\<close>. The loop carries
  \<^verbatim>\<open>use_bootstrap_docs\<close> and the list of Bootstrap files, which the permission branch
  empties. An empty answer and the last handler without a \<^verbatim>\<open>continue\<close> both go on with
  the next attempt without rotating. The request carries the key passed by the caller.
\<close>

datatype component_step =
  Component_continue bool "string list" world | Component_return string world
  | Component_raise py_exc world

fun component_step_world :: "component_step \<Rightarrow> world" where
  "component_step_world (Component_continue use_bootstrap_docs bootstrap_files w) = w"
| "component_step_world (Component_return component_code w) = w"
| "component_step_world (Component_raise e w) = w"

definition component_step ::
  "collab \<Rightarrow> string \<Rightarrow> string \<Rightarrow> string \<Rightarrow> nat \<Rightarrow> nat \<Rightarrow> bool \<Rightarrow> string list \<Rightarrow> world
     \<Rightarrow> component_step" where
  "component_step E component_name component_prompt openrouter_key max_retries attempt
       use_bootstrap_docs bootstrap_files w =
     (let req = \<lparr>tr_key = openrouter_key,
                 tr_messages = build_contents E component_prompt bootstrap_files use_bootstrap_docs,
                 tr_max_tokens = 16000\<rparr>;
          w1 = w\<lparr>text_calls := text_calls w @ [req]\<rparr>
      in case post E (length (text_calls w)) req of
           Content c \<Rightarrow>
             if c = [] then Component_continue use_bootstrap_docs bootstrap_files w1
             else Component_return (strip_code_fence ''```html'' (str_strip c)) w1
         | Raises e \<Rightarrow>
             if exc_is_http e then
               (if openrouter_is_rate_limit_error e
                   \<and> has_multiple_keys_openrouter w1 \<and> fst (rotate_openrouter_key w1)
                then Component_continue use_bootstrap_docs bootstrap_files
                       (sleep 5 (snd (rotate_openrouter_key w1)))
                else if attempt = max_retries - 1 then
                  Component_raise (Exception (''Failed to generate component after ''
                     @ str_of_nat max_retries @ '' attempts: '' @ exc_str e)) w1
                else Component_raise (Exception (''Failed to generate component: '' @ exc_str e)) w1)
             else if is_permission_error e then Component_continue False [] w1
             else if is_rate_limit_error_openrouter e \<and> has_multiple_keys_openrouter w1
                     \<and> attempt < max_retries - 1
             then Component_continue use_bootstrap_docs bootstrap_files
                    (sleep 5 (snd (rotate_openrouter_key w1)))
             else if has_multiple_keys_openrouter w1 \<and> attempt < max_retries - 1
             then Component_continue use_bootstrap_docs bootstrap_files
                    (sleep 5 (snd (rotate_openrouter_key w1)))
             else Component_continue use_bootstrap_docs bootstrap_files w1)"

function component_loop ::
  "collab \<Rightarrow> string \<Rightarrow> string \<Rightarrow> string \<Rightarrow> nat \<Rightarrow> nat \<Rightarrow> bool \<Rightarrow> string list \<Rightarrow> world
     \<Rightarrow> (py_exc + string option) \<times> bool \<times> world" where
  "component_loop E component_name component_prompt openrouter_key max_retries attempt
       use_bootstrap_docs bootstrap_files w =
     (if attempt < max_retries then
        (case component_step E component_name component_prompt openrouter_key max_retries attempt
                use_bootstrap_docs bootstrap_files w of
           Component_continue use' files' w' \<Rightarrow>
             component_loop E component_name component_prompt openrouter_key max_retries
               (Suc attempt) use' files' w'
         | Component_return component_code w' \<Rightarrow> (Inr (Some component_code), use_bootstrap_docs, w')
         | Component_raise e w' \<Rightarrow> (Inl e, use_bootstrap_docs, w'))
      else (Inr None, use_bootstrap_docs, w))"
  by pat_completeness auto
termination
  by (relation "measure (\<lambda>(E, n, p, k, max_retries, attempt, u, f, w). max_retries - attempt)") auto

declare component_loop.simps [simp del]

text \<open>
  The last call without the Bootstrap documentation, made only when
  \<^verbatim>\<open>use_bootstrap_docs\<close> is still set after the loop; whatever it raises is caught.
\<close>

definition final_fallback ::
  "collab \<Rightarrow> string \<Rightarrow> string \<Rightarrow> string list \<Rightarrow> world \<Rightarrow> string option \<times> world" where
  "final_fallback E component_prompt openrouter_key bootstrap_files w =
     (let req = \<lparr>tr_key = openrouter_key,
                 tr_messages = build_contents E component_prompt bootstrap_files False,
                 tr_max_tokens = 16000\<rparr>;
          w1 = w\<lparr>text_calls := text_calls w @ [req]\<rparr>
      in case post E (length (text_calls w)) req of
           Content c \<Rightarrow>
             if c \<noteq> [] then (Some (strip_code_fence ''```html'' (str_strip c)), w1)
             else (None, w1)
         | Raises e \<Rightarrow> (None, w1))"

text \<open>
  The result is \<open>Inl e\<close> when the exception \<open>e\<close> leaves the function (the two
  \<^verbatim>\<open>raise\<close> of the HTTP handler), \<open>Inr None\<close> for \<^verbatim>\<open>return None\<close> and
  \<open>Inr (Some code)\<close> for the generated markup.
\<close>

definition generate_component ::
  "collab \<Rightarrow> form_data \<Rightarrow> component_request \<Rightarrow> string \<Rightarrow> string list \<Rightarrow> world
     \<Rightarrow> (py_exc + string option) \<times> world" where
  "generate_component E form_data request openrouter_key bootstrap_files w =
     (let component_prompt = get_component_prompt E form_data request;
          all_openrouter_keys = get_all_keys (consolidated_openrouter w);
          max_retries = (if all_openrouter_keys \<noteq> [] then length all_openrouter_keys else 1);
          use_bootstrap_docs = (bootstrap_files \<noteq> [])
      in case component_loop E (cr_name request) component_prompt openrouter_key max_retries 0
                use_bootstrap_docs bootstrap_files w of
           (Inl e, use', w') \<Rightarrow> (Inl e, w')
         | (Inr (Some component_code), use', w') \<Rightarrow> (Inr (Some component_code), w')
         | (Inr None, use', w') \<Rightarrow>
             if use' then
               (case final_fallback E component_prompt openrouter_key bootstrap_files w' of
                  (Some component_code, w'') \<Rightarrow> (Inr (Some component_code), w'')
                | (None, w'') \<Rightarrow> (Inr None, w''))
             else (Inr None, w'))"

subsection \<open>\<^verbatim>\<open>generate_all_components\<close>\<close>

text \<open>
  The returned dict maps a component name to its markup and, under the key
  \<^verbatim>\<open>'__generated_images__'\<close>, holds the image list. A Python dict keeps the order of
  insertion; assigning to a key that is present replaces the value in place.
\<close>

datatype dict_value = Markup string | Image_list "string list"

fun dict_set :: "(string \<times> 'v) list \<Rightarrow> string \<Rightarrow> 'v \<Rightarrow> (string \<times> 'v) list" where
  "dict_set [] k v = [(k, v)]"
| "dict_set ((k', v') # d) k v = (if k' = k then (k, v) # d else (k', v') # dict_set d k v)"

definition dict_has :: "(string \<times> 'v) list \<Rightarrow> string \<Rightarrow> bool" where
  "dict_has d k = (map_of d k \<noteq> None)"





text \<open>What stays the same during one run.\<close>

record gen_args =
  ga_form_data :: form_data
  ga_timestamp :: string
  ga_openai_client :: "string option"
  ga_openrouter_key :: string

definition component_design_info :: "descriptor \<Rightarrow> design_info" where
  "component_design_info cmp =
     \<lparr>di_design_style = dget (d_design_style cmp) [],
      di_layout_type = dget (d_layout_type cmp) [],
      di_visual_features = dget (d_visual_features cmp) [],
      di_image_dimensions = dget (d_image_dimensions cmp) [],
      di_image_usage = dget (d_image_usage cmp) []\<rparr>"

text \<open>
  Step 1 of the loop body: the image, generated on demand and appended when the
  reference is a non-empty string.
\<close>

definition image_phase ::
  "collab \<Rightarrow> gen_args \<Rightarrow> descriptor \<Rightarrow> string list \<Rightarrow> world \<Rightarrow> string list \<times> world" where
  "image_phase E A cmp generated_image_urls w =
     (if dget (d_needs_image cmp) False then
        (case generate_image_for_component E cmp (ga_timestamp A) (ga_openai_client A) w of
           (Some image_url, w') \<Rightarrow>
             if image_url \<noteq> []
             then (generated_image_urls @ [image_url],
                   w'\<lparr>trace := trace w' @ [Image_appended image_url]\<rparr>)
             else (generated_image_urls, w')
         | (None, w') \<Rightarrow> (generated_image_urls, w'))
      else (generated_image_urls, w))"

text \<open>
  The main loop over the sorted descriptors. An exception that leaves
  \<^verbatim>\<open>generate_component\<close> ends the loop: the first component of the result says so.
\<close>

fun generate_loop ::
  "collab \<Rightarrow> gen_args \<Rightarrow> descriptor list \<Rightarrow> (string \<times> dict_value) list \<Rightarrow> string list \<Rightarrow> world
     \<Rightarrow> py_exc option \<times> (string \<times> dict_value) list \<times> string list \<times> world" where
  "generate_loop E A [] components generated_image_urls w =
     (None, components, generated_image_urls, w)"
| "generate_loop E A (cmp # rest) components generated_image_urls w =
     (let comp_name = dget (d_name cmp) ''Unknown'';
          comp_purpose = dget (d_purpose cmp) ''Component'';
          (urls1, w1) = image_phase E A cmp generated_image_urls w;
          w2 = w1\<lparr>trace := trace w1 @ [Component_call comp_name urls1]\<rparr>
      in case generate_component E (ga_form_data A)
                \<lparr>cr_name = comp_name, cr_purpose = comp_purpose, cr_image_urls = urls1,
                 cr_design_info = Some (component_design_info cmp)\<rparr>
                (ga_openrouter_key A) [] w2 of
           (Inl e, w3) \<Rightarrow> (Some e, components, urls1, w3)
         | (Inr None, w3) \<Rightarrow> generate_loop E A rest components urls1 w3
         | (Inr (Some comp_code), w3) \<Rightarrow>
             if comp_code \<noteq> []
             then generate_loop E A rest (dict_set components comp_name (Markup comp_code)) urls1 w3
             else generate_loop E A rest components urls1 w3)"



section \<open>The combiner (utils/website\_combiner.py)\<close>

definition spacing_css :: string where
  "spacing_css =
     [CHR 0x0A] @ ''        /* Ensure proper spacing between sections */'' @ [CHR 0x0A]
     @ ''        section, .section, [class*='' @ [CHR 0x22] @ ''section'' @ [CHR 0x22] @ ''] {''
     @ [CHR 0x0A]
     @ ''            padding-top: 80px !important;'' @ [CHR 0x0A]
     @ ''            padding-bottom: 80px !important;'' @ [CHR 0x0A]
     @ ''        }'' @ [CHR 0x0A]
     @ ''        ''"

text \<open>
  What one attempt does with the content of the answer: the clean-up, the document type
  declaration, and the spacing rule. The check that every component still appears in the
  merged text only prints, so it is left out.
\<close>

definition ensure_doctype :: "string \<Rightarrow> string" where
  "ensure_doctype html_code =
     (if \<not> str_startswith html_code ''<!DOCTYPE'' then
        (if py_in ''<!DOCTYPE'' html_code then from_first ''<!DOCTYPE'' html_code
         else ''<!DOCTYPE html>'' @ [CHR 0x0A] @ html_code)
      else html_code)"

definition ensure_spacing :: "string \<Rightarrow> string" where
  "ensure_spacing html_code =
     (if \<not> py_in ''padding-top: 80px'' html_code \<and> \<not> py_in ''py-5'' html_code then
        (if py_in ''<style>'' html_code
         then str_replace html_code ''<style>'' (''<style>'' @ spacing_css)
         else html_code)
      else html_code)"

definition combine_attempt :: "http_result \<Rightarrow> py_exc + string" where
  "combine_attempt r =
     (case r of
        Raises e \<Rightarrow> Inl e
      | Content c \<Rightarrow>
          if c = [] then Inl (Exception ''No response from OpenRouter/Gemini'')
          else Inr (ensure_spacing (ensure_doctype (strip_code_fence ''```html'' (str_strip c)))))"

definition combine_step ::
  "collab \<Rightarrow> string \<Rightarrow> string \<Rightarrow> nat \<Rightarrow> nat \<Rightarrow> world \<Rightarrow> string step" where
  "combine_step E openrouter_key combination_prompt max_retries_openrouter attempt w =
     (let req = \<lparr>tr_key = openrouter_key, tr_messages = [combination_prompt],
                 tr_max_tokens = 32000\<rparr>;
          w1 = w\<lparr>text_calls := text_calls w @ [req]\<rparr>
      in case combine_attempt (post E (length (text_calls w)) req) of
           Inr html_code \<Rightarrow> Return html_code w1
         | Inl e \<Rightarrow>
             if exc_is_http e then
               (if openrouter_is_rate_limit_error e
                   \<and> has_multiple_keys_openrouter w1 \<and> fst (rotate_openrouter_key w1)
                then Continue (sleep 5 (snd (rotate_openrouter_key w1)))
                else if attempt = max_retries_openrouter - 1 then
                  Raise (Exception (''Failed to combine components after ''
                           @ str_of_nat max_retries_openrouter @ '' attempts: '' @ exc_str e)) w1
                else Raise (Exception (''Failed to combine components: '' @ exc_str e)) w1)
             else
               (if is_rate_limit_error_openrouter e \<and> has_multiple_keys_openrouter w1
                   \<and> attempt < max_retries_openrouter - 1
                then Continue (sleep 5 (snd (rotate_openrouter_key w1)))
                else if attempt < max_retries_openrouter - 1 then
                  (if has_multiple_keys_openrouter w1
                   then Continue (sleep 5 (snd (rotate_openrouter_key w1)))
                   else Continue w1)
                else Raise e w1))"

function combine_loop ::
  "collab \<Rightarrow> string \<Rightarrow> string \<Rightarrow> nat \<Rightarrow> nat \<Rightarrow> world \<Rightarrow> (py_exc + string) \<times> world" where
  "combine_loop E openrouter_key combination_prompt max_retries_openrouter attempt w =
     (if attempt < max_retries_openrouter then
        (case combine_step E openrouter_key combination_prompt max_retries_openrouter attempt w of
           Continue w' \<Rightarrow>
             combine_loop E openrouter_key combination_prompt max_retries_openrouter (Suc attempt) w'
         | Return html_code w' \<Rightarrow> (Inr html_code, w')
         | Raise e w' \<Rightarrow> (Inl e, w'))
      else (Inl (Exception ''All combination attempts failed''), w))"
  by pat_completeness auto
termination
  by (relation "measure (\<lambda>(E, k, p, max_retries, attempt, w). max_retries - attempt)") auto

declare combine_loop.simps [simp del]

text \<open>\<open>None\<close> is the \<^verbatim>\<open>return None\<close> of the outer handler.\<close>

definition combine_components ::
  "collab \<Rightarrow> form_data \<Rightarrow> (string \<times> string) list \<Rightarrow> string list \<Rightarrow> world
     \<Rightarrow> string option \<times> world" where
  "combine_components E form_data ordered_components image_urls w =
     (case get_openrouter_key w of
        None \<Rightarrow> (None, w)
      | Some openrouter_key \<Rightarrow>
          if openrouter_key = [] then (None, w)
          else
            (let combination_prompt = get_combination_prompt E form_data ordered_components image_urls;
                 all_openrouter_keys = get_all_keys (consolidated_openrouter w);
                 max_retries_openrouter =
                   (if all_openrouter_keys \<noteq> [] then length all_openrouter_keys else 1)
             in case combine_loop E openrouter_key combination_prompt max_retries_openrouter 0 w of
                  (Inr html_code, w') \<Rightarrow> (Some html_code, w')
                | (Inl e, w') \<Rightarrow> (None, w')))"

subsection \<open>What \<^verbatim>\<open>create_website\<close> does with the combined document (routes/generate\_code.py)\<close>

definition bootstrap_css :: string where
  "bootstrap_css =
     ''<link href='' @ [CHR 0x22]
     @ ''https://cdn.jsdelivr.net/npm/bootstrap@5.3.0/dist/css/bootstrap.min.css''
     @ [CHR 0x22] @ '' rel='' @ [CHR 0x22] @ ''stylesheet'' @ [CHR 0x22] @ ''>'' @ [CHR 0x0A]"

definition bootstrap_js :: string where
  "bootstrap_js =
     ''<script src='' @ [CHR 0x22]
     @ ''https://cdn.jsdelivr.net/npm/bootstrap@5.3.0/dist/js/bootstrap.bundle.min.js''
     @ [CHR 0x22] @ ''></script>'' @ [CHR 0x0A]"

definition add_bootstrap :: "string \<Rightarrow> string" where
  "add_bootstrap generated_code =
     (let with_css =
            (if py_in ''</head>'' generated_code
             then str_replace generated_code ''</head>'' (bootstrap_css @ ''</head>'')
             else if py_in ''<head>'' generated_code
             then str_replace generated_code ''<head>'' (''<head>'' @ [CHR 0x0A] @ bootstrap_css)
             else generated_code)
      in if py_in ''</body>'' with_css
         then str_replace with_css ''</body>'' (bootstrap_js @ ''</body>'')
         else if py_in ''<body>'' with_css
         then str_replace with_css ''<body>'' (''<body>'' @ [CHR 0x0A] @ bootstrap_js)
         else with_css)"

text \<open>
  The checks on the combined document and the Bootstrap repair; \<open>Inl\<close> is the exception
  that ends the request with status 500, \<open>Inr\<close> the \<^verbatim>\<open>code\<close> of the JSON answer.
\<close>

definition check_generated_code :: "string option \<Rightarrow> py_exc + string" where
  "check_generated_code generated =
     (case generated of
        None \<Rightarrow> Inl (Exception ''Failed to combine components into final HTML'')
      | Some generated_code \<Rightarrow>
          if generated_code = [] then Inl (Exception ''Failed to combine components into final HTML'')
          else if length (str_strip generated_code) < 100 then
            Inl (Exception ''Generated code is too short or empty. Please try again.'')
          else if \<not> py_in ''<html'' (str_lower generated_code)
                  \<or> \<not> py_in ''<body'' (str_lower generated_code) then
            Inl (Exception
              ''Generated code is missing required HTML structure (html, body tags)'')
          else if \<not> py_in ''bootstrap'' (str_lower generated_code)
                  \<or> \<not> py_in ''cdn.jsdelivr.net/npm/bootstrap'' (str_lower generated_code)
          then Inr (str_strip (add_bootstrap generated_code))
          else Inr (str_strip generated_code))"

subsection \<open>Reading the trace\<close>

text \<open>
  \<open>contexts_ok acc evs\<close> checks a trace against the images accumulated before it: every
  component handed to \<^verbatim>\<open>generate_component\<close> is given exactly the images appended so far.
  \<open>appended\<close> lists the images appended, \<open>called\<close> the components of the main loop and
  \<open>regenerated\<close> the components generated again after it, each in the order of the trace.
\<close>

fun contexts_ok :: "string list \<Rightarrow> event list \<Rightarrow> bool" where
  "contexts_ok acc [] = True"
| "contexts_ok acc (Image_appended url # evs) = contexts_ok (acc @ [url]) evs"
| "contexts_ok acc (Component_call name urls # evs) = (urls = acc \<and> contexts_ok acc evs)"
| "contexts_ok acc (Regenerating name urls # evs) = (urls = acc \<and> contexts_ok acc evs)"

fun appended :: "event list \<Rightarrow> string list" where
  "appended [] = []"
| "appended (Image_appended url # evs) = url # appended evs"
| "appended (Component_call name urls # evs) = appended evs"
| "appended (Regenerating name urls # evs) = appended evs"

fun called :: "event list \<Rightarrow> string list" where
  "called [] = []"
| "called (Image_appended url # evs) = called evs"
| "called (Component_call name urls # evs) = name # called evs"
| "called (Regenerating name urls # evs) = called evs"

fun regenerated :: "event list \<Rightarrow> string list" where
  "regenerated [] = []"
| "regenerated (Image_appended url # evs) = regenerated evs"
| "regenerated (Component_call name urls # evs) = regenerated evs"
| "regenerated (Regenerating name urls # evs) = name # regenerated evs"

definition comp_name_of :: "descriptor \<Rightarrow> string" where
  "comp_name_of cmp = dget (d_name cmp) ''Unknown''"

text \<open>Whether every value of the dict is the markup of a component.\<close>

fun is_markup :: "dict_value \<Rightarrow> bool" where
  "is_markup (Markup code) = True"
| "is_markup (Image_list urls) = False"

definition all_markup :: "(string \<times> dict_value) list \<Rightarrow> bool" where
  "all_markup d = list_all (\<lambda>p. is_markup (snd p)) d"

section \<open>Concrete inputs\<close>

text \<open>
  Errors as \<^verbatim>\<open>requests\<close> raises them: the text of an \<^verbatim>\<open>HTTPError\<close> starts with the status
  code and the reason, and the response carries the status code.
\<close>

definition http_429 :: py_exc where
  "http_429 =
     \<lparr>exc_is_http = True, exc_type_name = ''HTTPError'',
      exc_str = ''429 Client Error: Too Many Requests for url: ''
        @ ''https://openrouter.ai/api/v1/chat/completions'',
      exc_status_code = None, exc_status = None,
      exc_args = [\<lparr>arg_str = ''429 Client Error: Too Many Requests for url: ''
        @ ''https://openrouter.ai/api/v1/chat/completions'', arg_error = None\<rparr>],
      exc_message = None, exc_response_status = Some 429\<rparr>"

definition http_500 :: py_exc where
  "http_500 =
     \<lparr>exc_is_http = True, exc_type_name = ''HTTPError'',
      exc_str = ''500 Server Error: Internal Server Error for url: ''
        @ ''https://openrouter.ai/api/v1/chat/completions'',
      exc_status_code = None, exc_status = None,
      exc_args = [\<lparr>arg_str = ''500 Server Error: Internal Server Error for url: ''
        @ ''https://openrouter.ai/api/v1/chat/completions'', arg_error = None\<rparr>],
      exc_message = None, exc_response_status = Some 500\<rparr>"

definition connection_error :: py_exc where
  "connection_error =
     \<lparr>exc_is_http = False, exc_type_name = ''ConnectionError'',
      exc_str = ''Connection aborted.'',
      exc_status_code = None, exc_status = None,
      exc_args = [\<lparr>arg_str = ''Connection aborted.'', arg_error = None\<rparr>],
      exc_message = None, exc_response_status = None\<rparr>"

definition json_decode_error :: py_exc where
  "json_decode_error =
     \<lparr>exc_is_http = False, exc_type_name = ''JSONDecodeError'',
      exc_str = ''Expecting value: line 1 column 1 (char 0)'',
      exc_status_code = None, exc_status = None,
      exc_args = [\<lparr>arg_str = ''Expecting value: line 1 column 1 (char 0)'', arg_error = None\<rparr>],
      exc_message = None, exc_response_status = None\<rparr>"

text \<open>
  Collaborators given by a text provider, a parser for the planner and an image
  provider; the prompt templates are short stand-ins, and there are no Bootstrap files.
\<close>

definition collab_of ::
  "(nat \<Rightarrow> text_request \<Rightarrow> http_result) \<Rightarrow> (string \<Rightarrow> py_exc + plan)
     \<Rightarrow> (nat \<Rightarrow> image_request \<Rightarrow> image_result) \<Rightarrow> collab" where
  "collab_of text_provider parser image_provider =
     \<lparr>post = text_provider, json_loads = parser, images_generate = image_provider,
      get_planning_prompt = (\<lambda>form_data. ''plan''),
      get_component_prompt = (\<lambda>form_data request. ''component '' @ cr_name request),
      get_combination_prompt = (\<lambda>form_data components image_urls. ''combine''),
      read_bootstrap_file = (\<lambda>file_uri. None)\<rparr>"

definition no_parse :: "string \<Rightarrow> py_exc + plan" where
  "no_parse s = Inl json_decode_error"

definition no_image :: "nat \<Rightarrow> image_request \<Rightarrow> image_result" where
  "no_image n r = Image_raises connection_error"

definition pool :: "string list \<Rightarrow> key_manager" where
  "pool ks = \<lparr>km_keys = ks, current_key_index = 0\<rparr>"

text \<open>
  A process with the given OpenRouter and OpenAI keys, before any call. The managers
  inside \<^verbatim>\<open>_key_manager\<close> hold the same keys, shuffled on their own.
\<close>

definition fresh_world :: "string list \<Rightarrow> string list \<Rightarrow> world" where
  "fresh_world openrouter_keys openai_keys =
     \<lparr>openrouter_key_manager = pool openrouter_keys,
      consolidated_openrouter = pool (rev openrouter_keys),
      openai_key_manager = pool openai_keys,
      consolidated_openai = pool (rev openai_keys),
      text_calls = [], image_calls = [], slept = 0, trace = []\<rparr>"

definition always_429 :: "nat \<Rightarrow> text_request \<Rightarrow> http_result" where
  "always_429 n r = Raises http_429"

definition always_500 :: "nat \<Rightarrow> text_request \<Rightarrow> http_result" where
  "always_500 n r = Raises http_500"


definition always_content :: "nat \<Rightarrow> text_request \<Rightarrow> http_result" where
  "always_content n r = Content ''<section>ok</section>''"

text \<open>
  A provider answer that parses to eight components which all sit in slot 1 and are all
  called Section.
\<close>

definition section_descriptor :: descriptor where
  "section_descriptor =
     empty_descriptor\<lparr>d_name := Some ''Section'', d_order := Some 1, d_needs_image := Some False\<rparr>"

definition flat_plan :: plan where
  "flat_plan =
     \<lparr>all_components = Some (replicate 8 section_descriptor), dynamic_components = None,
      image_plan = None, component_order = None, plan_notes = None\<rparr>"

definition flat_parser :: "string \<Rightarrow> py_exc + plan" where
  "flat_parser s = Inr flat_plan"

text \<open>
  A run of the generator: the key and the client that \<^verbatim>\<open>create_website\<close> hands over, and
  text providers whose eighth call (the one for Footer when each component before took
  one call) fails, with a status 500 or with an empty answer.
\<close>

definition example_args :: gen_args where
  "example_args =
     \<lparr>ga_form_data = Map.empty, ga_timestamp = ''20250101_120000'',
      ga_openai_client = Some ''o1'', ga_openrouter_key = ''k1''\<rparr>"

definition eighth_call_500 :: "nat \<Rightarrow> text_request \<Rightarrow> http_result" where
  "eighth_call_500 n r = (if n = 7 then Raises http_500 else Content ''<section>ok</section>'')"

definition eighth_call_empty :: "nat \<Rightarrow> text_request \<Rightarrow> http_result" where
  "eighth_call_empty n r = (if n = 7 then Content [] else Content ''<section>ok</section>'')"


definition compat_hero :: descriptor where
  "compat_hero =
     empty_descriptor
       \<lparr>d_name := Some ''Hero'',
        d_purpose := Some ''Hero section with hero image, headline, and call-to-action'',
        d_order := Some 2,
        d_needs_image := Some True\<rparr>"

section \<open>Properties of the key managers and of the shared state\<close>

lemma rotate_key_ok:
  assumes "km_ok m"
  shows "km_ok (snd (rotate_key m))"
proof (cases "length (km_keys m) \<le> 1")
  case True
  with assms show ?thesis by (simp add: rotate_key_def)
next
  case False
  then have "0 < length (km_keys m)" by linarith
  then have "(current_key_index m + 1) mod length (km_keys m) < length (km_keys m)"
    by (rule mod_less_divisor)
  with False show ?thesis by (simp add: km_ok_def rotate_key_def)
qed

lemma rotate_key_keys [simp]: "km_keys (snd (rotate_key m)) = km_keys m"
  by (simp add: rotate_key_def)

lemma rotate_openrouter_frame [simp]:
  "text_calls (snd (rotate_openrouter_key w)) = text_calls w"
  "image_calls (snd (rotate_openrouter_key w)) = image_calls w"
  "trace (snd (rotate_openrouter_key w)) = trace w"
  "consolidated_openrouter (snd (rotate_openrouter_key w)) = consolidated_openrouter w"
  "consolidated_openai (snd (rotate_openrouter_key w)) = consolidated_openai w"
  "openai_key_manager (snd (rotate_openrouter_key w)) = openai_key_manager w"
  "km_keys (openrouter_key_manager (snd (rotate_openrouter_key w)))
     = km_keys (openrouter_key_manager w)"
  by (simp_all add: rotate_openrouter_key_def)

lemma rotate_openai_frame [simp]:
  "text_calls (snd (rotate_openai_key w)) = text_calls w"
  "image_calls (snd (rotate_openai_key w)) = image_calls w"
  "trace (snd (rotate_openai_key w)) = trace w"
  "consolidated_openrouter (snd (rotate_openai_key w)) = consolidated_openrouter w"
  "consolidated_openai (snd (rotate_openai_key w)) = consolidated_openai w"
  "openrouter_key_manager (snd (rotate_openai_key w)) = openrouter_key_manager w"
  "km_keys (openai_key_manager (snd (rotate_openai_key w))) = km_keys (openai_key_manager w)"
  by (simp_all add: rotate_openai_key_def)

lemma sleep_frame [simp]:
  "text_calls (sleep n w) = text_calls w"
  "image_calls (sleep n w) = image_calls w"
  "trace (sleep n w) = trace w"
  "openrouter_key_manager (sleep n w) = openrouter_key_manager w"
  "consolidated_openrouter (sleep n w) = consolidated_openrouter w"
  "openai_key_manager (sleep n w) = openai_key_manager w"
  "consolidated_openai (sleep n w) = consolidated_openai w"
  by (simp_all add: sleep_def)

section \<open>Properties of the planner\<close>

lemma plan_loop_done:
  "\<not> a < m \<Longrightarrow> plan_loop E k p m a w = (Inl (Exception ''All planning attempts failed''), w)"
  by (subst plan_loop.simps) simp

lemma plan_loop_step:
  "a < m \<Longrightarrow> plan_loop E k p m a w =
     (case plan_step E k p m a w of
        Continue w' \<Rightarrow> plan_loop E k p m (Suc a) w'
      | Return plan_data w' \<Rightarrow> (Inr plan_data, w')
      | Raise e w' \<Rightarrow> (Inl e, w'))"
  by (subst plan_loop.simps) simp

lemma plan_attempt_shape:
  assumes "plan_attempt E r = Inr p"
  shows "\<exists>comps. all_components p = Some comps \<and> length comps = 8
           \<and> list_all (\<lambda>c. d_name c \<noteq> None) comps"
  using assms
  by (auto simp: plan_attempt_def list_all_iff list_ex_iff
           split: http_result.splits if_splits sum.splits option.splits)

lemma plan_step_Return:
  assumes "plan_step E k p m a w = Return pl w'"
  shows "plan_attempt E (post E (length (text_calls w))
            \<lparr>tr_key = k, tr_messages = [p], tr_max_tokens = 4000\<rparr>) = Inr pl"
  using assms
  by (auto simp: plan_step_def Let_def split: sum.splits if_splits)

lemma plan_step_world:
  "text_calls (step_world (plan_step E k p m a w))
     = text_calls w @ [\<lparr>tr_key = k, tr_messages = [p], tr_max_tokens = 4000\<rparr>]"
  "km_keys (openrouter_key_manager (step_world (plan_step E k p m a w)))
     = km_keys (openrouter_key_manager w)"
  "consolidated_openrouter (step_world (plan_step E k p m a w)) = consolidated_openrouter w"
  by (simp_all add: plan_step_def Let_def split: sum.split)

lemma plan_step_Continue:
  assumes "plan_step E k p m a w = Continue w'"
  shows "text_calls w' = text_calls w @ [\<lparr>tr_key = k, tr_messages = [p], tr_max_tokens = 4000\<rparr>]"
    and "km_keys (openrouter_key_manager w') = km_keys (openrouter_key_manager w)"
  using plan_step_world[of E k p m a w] by (simp_all add: assms)

lemma plan_step_Return_calls:
  assumes "plan_step E k p m a w = Return pl w'"
  shows "text_calls w' = text_calls w @ [\<lparr>tr_key = k, tr_messages = [p], tr_max_tokens = 4000\<rparr>]"
  using plan_step_world(1)[of E k p m a w] by (simp add: assms)

lemma plan_step_Raise_calls:
  assumes "plan_step E k p m a w = Raise e w'"
  shows "text_calls w' = text_calls w @ [\<lparr>tr_key = k, tr_messages = [p], tr_max_tokens = 4000\<rparr>]"
  using plan_step_world(1)[of E k p m a w] by (simp add: assms)

lemma plan_loop_Inr:
  "fst (plan_loop E k p m a w) = Inr pl \<Longrightarrow> \<exists>n req. plan_attempt E (post E n req) = Inr pl"
proof (induction E k p m a w rule: plan_loop.induct)
  case (1 E k p m a w)
  show ?case
  proof (cases "a < m")
    case False
    with "1.prems" show ?thesis by (simp add: plan_loop_done)
  next
    case True
    show ?thesis
    proof (cases "plan_step E k p m a w")
      case (Continue w')
      with True "1.prems" have "fst (plan_loop E k p m (Suc a) w') = Inr pl"
        by (simp add: plan_loop_step)
      with "1.IH" True Continue show ?thesis by blast
    next
      case (Return pl' w')
      with True "1.prems" have "pl' = pl" by (simp add: plan_loop_step)
      with Return plan_step_Return show ?thesis by blast
    next
      case (Raise e w')
      with True "1.prems" show ?thesis by (simp add: plan_loop_step)
    qed
  qed
qed

lemma plan_loop_all_fail:
  assumes "\<forall>n req. isl (plan_attempt E (post E n req))"
  shows "isl (fst (plan_loop E k p m a w))"
proof (cases "fst (plan_loop E k p m a w)")
  case (Inl e)
  then show ?thesis by simp
next
  case (Inr pl)
  then obtain n req where "plan_attempt E (post E n req) = Inr pl"
    using plan_loop_Inr by blast
  with assms show ?thesis by (metis sum.disc(2))
qed

lemma planner_fallback:
  assumes "\<forall>n req. isl (plan_attempt E (post E n req))"
  shows "fst (plan_website_components E form w) = get_fallback_plan form"
proof -
  have "isl (fst (plan_try E form w))"
    using plan_loop_all_fail[OF assms]
    by (simp add: plan_try_def Let_def split: option.splits)
  then show ?thesis
    by (cases "plan_try E form w") (auto simp: plan_website_components_def split: sum.splits)
qed

lemma fallback_shape:
  "\<exists>comps. all_components (get_fallback_plan f) = Some comps \<and> length comps = 8
     \<and> list_all (\<lambda>c. d_name c \<noteq> None) comps
     \<and> map d_order comps = map Some [1, 2, 3, 4, 5, 6, 7, 8]
     \<and> map d_name comps = map Some [''Navigation'', ''Hero'', ''Services'', ''About'',
          ''Features'', ''Testimonials'', ''Contact'', ''Footer'']
     \<and> map d_needs_image comps
          = map Some [False, True, True, False, True, False, False, False]"
  by (simp add: get_fallback_plan_def Let_def empty_descriptor_def)

lemma planner_eight:
  "\<exists>comps. all_components (fst (plan_website_components E form w)) = Some comps
      \<and> length comps = 8 \<and> list_all (\<lambda>c. d_name c \<noteq> None) comps"
proof (cases "plan_try E form w")
  case (Pair r w')
  show ?thesis
  proof (cases r)
    case (Inl e)
    with Pair have "fst (plan_website_components E form w) = get_fallback_plan form"
      by (simp add: plan_website_components_def)
    moreover obtain comps where "all_components (get_fallback_plan form) = Some comps"
      "length comps = 8" "list_all (\<lambda>c. d_name c \<noteq> None) comps"
      using fallback_shape[of form] by blast
    ultimately show ?thesis by simp
  next
    case (Inr pl)
    with Pair have *: "fst (plan_website_components E form w) = pl"
      by (simp add: plan_website_components_def)
    from Pair Inr have "\<exists>k m. plan_loop E k (get_planning_prompt E form) m 0 w = (Inr pl, w')"
      by (auto simp: plan_try_def Let_def split: option.splits if_splits)
    then have "\<exists>k m. fst (plan_loop E k (get_planning_prompt E form) m 0 w) = Inr pl"
      by (metis fst_conv)
    then obtain n req where "plan_attempt E (post E n req) = Inr pl"
      using plan_loop_Inr by blast
    with plan_attempt_shape * show ?thesis by simp
  qed
qed

text \<open>Every request of the retry loop carries the key that was read before the loop.\<close>

lemma plan_loop_same_key:
  "set (text_calls (snd (plan_loop E k p m a w)))
     \<subseteq> set (text_calls w) \<union> {\<lparr>tr_key = k, tr_messages = [p], tr_max_tokens = 4000\<rparr>}"
proof (induction E k p m a w rule: plan_loop.induct)
  case (1 E k p m a w)
  show ?case
  proof (cases "a < m")
    case False
    then show ?thesis by (simp add: plan_loop_done subset_insertI)
  next
    case True
    show ?thesis
    proof (cases "plan_step E k p m a w")
      case (Continue w')
      from "1.IH"[OF True Continue] plan_step_Continue(1)[OF Continue] True Continue
      show ?thesis by (auto simp: plan_loop_step)
    next
      case (Return pl w')
      from plan_step_Return_calls[OF Return] Return True show ?thesis
        by (auto simp: plan_loop_step)
    next
      case (Raise e w')
      from plan_step_Raise_calls[OF Raise] Raise True show ?thesis
        by (auto simp: plan_loop_step)
    qed
  qed
qed

text \<open>
  When every answer is a failure that the OpenRouter classifier takes for a rate limit,
  and the pool has \<open>m\<close> keys, the loop started at attempt \<open>a\<close> makes \<open>m - a\<close> calls and
  ends with an exception.
\<close>

lemma plan_step_rate_limited:
  assumes "post E (length (text_calls w)) \<lparr>tr_key = k, tr_messages = [p], tr_max_tokens = 4000\<rparr> = Raises e"
    and "openrouter_is_rate_limit_error e"
    and "length (km_keys (openrouter_key_manager w)) = N" and "a < N"
  shows "(\<exists>w'. plan_step E k p N a w = Continue w')
       \<or> ((\<exists>e' w'. plan_step E k p N a w = Raise e' w') \<and> a = N - 1)"
proof (cases "1 < N")
  case True
  with assms show ?thesis
    by (cases "exc_is_http e"; cases "a < N - 1")
       (auto simp: plan_step_def plan_attempt_def Let_def has_multiple_keys_openrouter_def
          has_multiple_keys_def rotate_openrouter_key_def rotate_key_def
          is_rate_limit_error_openrouter_def)
next
  case False
  with assms have "N = 1" "a = 0" by auto
  with assms show ?thesis
    by (cases "exc_is_http e")
       (auto simp: plan_step_def plan_attempt_def Let_def has_multiple_keys_openrouter_def
          has_multiple_keys_def is_rate_limit_error_openrouter_def)
qed

lemma plan_loop_rate_limited_attempts:
  "\<forall>n req. \<exists>e. post E n req = Raises e \<and> openrouter_is_rate_limit_error e \<Longrightarrow>
   length (km_keys (openrouter_key_manager w)) = m \<Longrightarrow> a \<le> m \<Longrightarrow>
     length (text_calls (snd (plan_loop E k p m a w))) = length (text_calls w) + (m - a)
     \<and> isl (fst (plan_loop E k p m a w))"
proof (induction E k p m a w rule: plan_loop.induct)
  case (1 E k p m a w)
  note rl = "1.prems"(1)
  show ?case
  proof (cases "a < m")
    case False
    with "1.prems" show ?thesis by (simp add: plan_loop_done)
  next
    case True
    obtain e where e: "post E (length (text_calls w))
          \<lparr>tr_key = k, tr_messages = [p], tr_max_tokens = 4000\<rparr> = Raises e"
      "openrouter_is_rate_limit_error e" using rl by blast
    from plan_step_rate_limited[OF e "1.prems"(2) True]
    consider (c) w' where "plan_step E k p m a w = Continue w'"
      | (r) e' w' where "plan_step E k p m a w = Raise e' w'" "a = m - 1"
      by blast
    then show ?thesis
    proof cases
      case c
      have "length (km_keys (openrouter_key_manager w')) = m"
        using plan_step_Continue(2)[OF c] "1.prems"(2) by simp
      with "1.IH"[OF True c rl] True
      have "length (text_calls (snd (plan_loop E k p m (Suc a) w')))
              = length (text_calls w') + (m - Suc a)
            \<and> isl (fst (plan_loop E k p m (Suc a) w'))"
        by simp
      with plan_step_Continue(1)[OF c] True c show ?thesis
        by (simp add: plan_loop_step)
    next
      case r
      with plan_step_Raise_calls[OF r(1)] True show ?thesis
        by (simp add: plan_loop_step)
    qed
  qed
qed

section \<open>Unfolding the other retry loops\<close>


lemma combine_loop_done:
  "\<not> a < m \<Longrightarrow> combine_loop E k p m a w = (Inl (Exception ''All combination attempts failed''), w)"
  by (subst combine_loop.simps) simp

lemma component_loop_step:
  "a < m \<Longrightarrow> component_loop E n p k m a u f w =
     (case component_step E n p k m a u f w of
        Component_continue u' f' w' \<Rightarrow> component_loop E n p k m (Suc a) u' f' w'
      | Component_return component_code w' \<Rightarrow> (Inr (Some component_code), u, w')
      | Component_raise e w' \<Rightarrow> (Inl e, u, w'))"
  by (subst component_loop.simps) simp

lemma component_loop_done:
  "\<not> a < m \<Longrightarrow> component_loop E n p k m a u f w = (Inr None, u, w)"
  by (subst component_loop.simps) simp

section \<open>The claims about the retry loop and the planner\<close>

text \<open>
  Claim C1: with a pool of \<open>N\<close> keys and an action that fails with a rate-limit error on
  every attempt, the retry loop makes \<open>N\<close> attempts, one for each credential, and then
  fails. The number of attempts is right (\<open>plan_loop_rate_limited_attempts\<close>), but the
  attempts are not one for each credential: with the two keys \<open>k1\<close> and \<open>k2\<close> and a
  provider that answers 429 every time, both requests of the planner carry \<open>k1\<close>, the key
  read before the loop; the cursor is rotated and the rotated key is never read.
\<close>

theorem planner_retries_with_the_first_key:
  "km_keys (openrouter_key_manager (fresh_world [''k1'', ''k2''] [''o1''])) = [''k1'', ''k2'']
   \<and> map tr_key (text_calls (snd (plan_website_components
          (collab_of always_429 no_parse no_image) Map.empty
          (fresh_world [''k1'', ''k2''] [''o1'']))))
       = [''k1'', ''k1'']
   \<and> fst (plan_website_components
          (collab_of always_429 no_parse no_image) Map.empty
          (fresh_world [''k1'', ''k2''] [''o1'']))
       = get_fallback_plan Map.empty"
  by code_simp




text \<open>
  Claim C3, as amended: for every business profile the planner returns a plan with
  exactly eight component descriptors, each of which has a name; the fallback plan has
  the slots 1 to 8 in this order, Navigation, Hero, Contact and Footer in the slots 1, 2,
  7 and 8, and an image for Hero but none for Navigation, Contact and Footer.
\<close>

theorem planner_returns_eight_named_components:
  "(\<exists>comps. all_components (fst (plan_website_components E form w)) = Some comps
      \<and> length comps = 8 \<and> list_all (\<lambda>c. d_name c \<noteq> None) comps)
   \<and> (\<exists>comps. all_components (get_fallback_plan form) = Some comps
      \<and> map d_order comps = map Some [1, 2, 3, 4, 5, 6, 7, 8]
      \<and> map d_name comps = map Some [''Navigation'', ''Hero'', ''Services'', ''About'',
           ''Features'', ''Testimonials'', ''Contact'', ''Footer'']
      \<and> map d_needs_image comps
           = map Some [False, True, True, False, True, False, False, False])"
  using planner_eight[of E form w] fallback_shape[of form] by blast

text \<open>
  Claim C3 as stated fails: an answer of the provider with eight components that all
  sit in slot 1 under the name Section passes the validation and is returned as the plan.
\<close>

theorem planner_accepts_eight_of_any_kind:
  "all_components (fst (plan_website_components
          (collab_of always_content flat_parser no_image) Map.empty
          (fresh_world [''k1'', ''k2''] [''o1''])))
     = Some (replicate 8 section_descriptor)
   \<and> d_order section_descriptor = Some 1
   \<and> d_name section_descriptor = Some ''Section''"
  by code_simp

text \<open>
  Claim C4: when every attempt of the planner fails (the call raises, the answer has no
  content, it does not parse, or it fails the validation), the planner returns the
  fallback plan, a function of the business profile alone; two such runs on the same
  profile, whatever the providers and the state, return the same plan.
\<close>

theorem planner_falls_back:
  assumes "\<forall>n req. isl (plan_attempt E1 (post E1 n req))"
    and "\<forall>n req. isl (plan_attempt E2 (post E2 n req))"
  shows "fst (plan_website_components E1 form w1) = get_fallback_plan form
       \<and> fst (plan_website_components E2 form w2) = fst (plan_website_components E1 form w1)"
  using planner_fallback[OF assms(1)] planner_fallback[OF assms(2)] by simp

theorem planner_falls_back_witness:
  "(\<forall>n req. isl (plan_attempt (collab_of always_500 no_parse no_image)
        (post (collab_of always_500 no_parse no_image) n req)))
   \<and> (\<forall>n req. isl (plan_attempt (collab_of always_content no_parse no_image)
        (post (collab_of always_content no_parse no_image) n req)))
   \<and> fst (plan_website_components (collab_of always_500 no_parse no_image)
        [''businessCategory'' \<mapsto> ''Food'', ''businessSubCategory'' \<mapsto> ''Bakery'']
        (fresh_world [''k1'', ''k2''] [''o1'']))
      = get_fallback_plan [''businessCategory'' \<mapsto> ''Food'', ''businessSubCategory'' \<mapsto> ''Bakery'']
   \<and> fst (plan_website_components (collab_of always_content no_parse no_image)
        [''businessCategory'' \<mapsto> ''Food'', ''businessSubCategory'' \<mapsto> ''Bakery'']
        (fresh_world [''k1''] [''o1'']))
      = fst (plan_website_components (collab_of always_500 no_parse no_image)
        [''businessCategory'' \<mapsto> ''Food'', ''businessSubCategory'' \<mapsto> ''Bakery'']
        (fresh_world [''k1'', ''k2''] [''o1'']))"
proof -
  have h1: "\<forall>n req. isl (plan_attempt (collab_of always_500 no_parse no_image)
        (post (collab_of always_500 no_parse no_image) n req))"
    by (simp add: collab_of_def always_500_def plan_attempt_def)
  have h2: "\<forall>n req. isl (plan_attempt (collab_of always_content no_parse no_image)
        (post (collab_of always_content no_parse no_image) n req))"
    by (simp add: collab_of_def always_content_def plan_attempt_def no_parse_def)
  from planner_falls_back[OF h1 h2] h1 h2 show ?thesis by blast
qed

section \<open>Properties of the image loop\<close>









section \<open>Properties of the component loop\<close>

lemma component_step_world:
  "trace (component_step_world (component_step E n p k m a u f w)) = trace w"
  "image_calls (component_step_world (component_step E n p k m a u f w)) = image_calls w"
  "consolidated_openai (component_step_world (component_step E n p k m a u f w))
     = consolidated_openai w"
  "consolidated_openrouter (component_step_world (component_step E n p k m a u f w))
     = consolidated_openrouter w"
  "openai_key_manager (component_step_world (component_step E n p k m a u f w))
     = openai_key_manager w"
  "text_calls (component_step_world (component_step E n p k m a u f w))
     = text_calls w @ [\<lparr>tr_key = k, tr_messages = build_contents E p f u, tr_max_tokens = 16000\<rparr>]"
  by (simp_all add: component_step_def Let_def split: http_result.split)

lemma component_loop_frame:
  "trace (snd (snd (component_loop E n p k m a u f w))) = trace w
   \<and> image_calls (snd (snd (component_loop E n p k m a u f w))) = image_calls w
   \<and> consolidated_openai (snd (snd (component_loop E n p k m a u f w))) = consolidated_openai w
   \<and> consolidated_openrouter (snd (snd (component_loop E n p k m a u f w)))
       = consolidated_openrouter w
   \<and> openai_key_manager (snd (snd (component_loop E n p k m a u f w))) = openai_key_manager w
   \<and> length (text_calls w) + (if a < m then 1 else 0)
       \<le> length (text_calls (snd (snd (component_loop E n p k m a u f w))))"
proof (induction E n p k m a u f w rule: component_loop.induct)
  case (1 E n p k m a u f w)
  show ?case
  proof (cases "a < m")
    case False
    then show ?thesis by (simp add: component_loop_done)
  next
    case True
    note sw = component_step_world[of E n p k m a u f w]
    show ?thesis
    proof (cases "component_step E n p k m a u f w")
      case (Component_continue u' f' w')
      with "1.IH"[OF True Component_continue] sw True show ?thesis
        by (simp add: component_loop_step split: if_splits)
    next
      case (Component_return code w')
      with sw True show ?thesis by (simp add: component_loop_step)
    next
      case (Component_raise e w')
      with sw True show ?thesis by (simp add: component_loop_step)
    qed
  qed
qed

lemma final_fallback_frame:
  "trace (snd (final_fallback E p k f w)) = trace w
   \<and> image_calls (snd (final_fallback E p k f w)) = image_calls w
   \<and> consolidated_openai (snd (final_fallback E p k f w)) = consolidated_openai w
   \<and> consolidated_openrouter (snd (final_fallback E p k f w)) = consolidated_openrouter w
   \<and> openai_key_manager (snd (final_fallback E p k f w)) = openai_key_manager w
   \<and> length (text_calls w) \<le> length (text_calls (snd (final_fallback E p k f w)))"
  by (simp add: final_fallback_def Let_def split: http_result.split)

lemma generate_component_frame:
  "trace (snd (generate_component E form request k f w)) = trace w
   \<and> image_calls (snd (generate_component E form request k f w)) = image_calls w
   \<and> consolidated_openai (snd (generate_component E form request k f w)) = consolidated_openai w
   \<and> consolidated_openrouter (snd (generate_component E form request k f w))
       = consolidated_openrouter w
   \<and> openai_key_manager (snd (generate_component E form request k f w)) = openai_key_manager w
   \<and> length (text_calls w) < length (text_calls (snd (generate_component E form request k f w)))"
proof -
  define m where "m = (if get_all_keys (consolidated_openrouter w) \<noteq> []
                       then length (get_all_keys (consolidated_openrouter w)) else 1)"
  define p where "p = get_component_prompt E form request"
  obtain r u' w' where L: "component_loop E (cr_name request) p k m 0 (f \<noteq> []) f w = (r, u', w')"
    by (metis prod.collapse)
  have "0 < m" by (simp add: m_def)
  with component_loop_frame[of E "cr_name request" p k m 0 "f \<noteq> []" f w] L
  have F: "trace w' = trace w" "image_calls w' = image_calls w"
    "consolidated_openai w' = consolidated_openai w"
    "consolidated_openrouter w' = consolidated_openrouter w"
    "openai_key_manager w' = openai_key_manager w"
    "length (text_calls w) < length (text_calls w')"
    by simp_all
  obtain r2 w2 where FF: "final_fallback E p k f w' = (r2, w2)" by (metis prod.collapse)
  with final_fallback_frame[of E p k f w'] F
  have F2: "trace w2 = trace w" "image_calls w2 = image_calls w"
    "consolidated_openai w2 = consolidated_openai w"
    "consolidated_openrouter w2 = consolidated_openrouter w"
    "openai_key_manager w2 = openai_key_manager w"
    "length (text_calls w) < length (text_calls w2)"
    by simp_all
  have "snd (generate_component E form request k f w) = w'
        \<or> snd (generate_component E form request k f w) = w2"
    using L FF
    by (simp add: generate_component_def Let_def m_def[symmetric] p_def[symmetric]
             split: sum.split option.split)
  with F F2 show ?thesis by auto
qed


section \<open>Properties of the trace\<close>

lemma appended_append [simp]: "appended (xs @ ys) = appended xs @ appended ys"
  by (induction xs rule: appended.induct) simp_all

lemma called_append [simp]: "called (xs @ ys) = called xs @ called ys"
  by (induction xs rule: called.induct) simp_all

lemma regenerated_append [simp]: "regenerated (xs @ ys) = regenerated xs @ regenerated ys"
  by (induction xs rule: regenerated.induct) simp_all

lemma contexts_ok_append [simp]:
  "contexts_ok acc (xs @ ys) = (contexts_ok acc xs \<and> contexts_ok (acc @ appended xs) ys)"
  by (induction acc xs rule: contexts_ok.induct) auto

section \<open>Properties of the dict\<close>

lemma map_of_dict_set: "map_of (dict_set d k v) = (map_of d)(k \<mapsto> v)"
  by (induction d k v rule: dict_set.induct) auto

lemma dict_has_dict_set [simp]: "dict_has (dict_set d k v) k' = (k' = k \<or> dict_has d k')"
  by (simp add: dict_has_def map_of_dict_set)

section \<open>Properties of the main loop\<close>

declare generate_loop.simps [simp del]


lemma trace_of_images [simp]:
  "contexts_ok acc (map Image_appended us)"
  "appended (map Image_appended us) = us"
  "called (map Image_appended us) = []"
  "regenerated (map Image_appended us) = []"
  by (induction us arbitrary: acc) simp_all

lemma generate_loop_Cons:
  assumes "image_phase E A cmp urls w = (urls1, w1)"
    and "generate_component E (ga_form_data A)
           \<lparr>cr_name = dget (d_name cmp) ''Unknown'', cr_purpose = dget (d_purpose cmp) ''Component'',
            cr_image_urls = urls1, cr_design_info = Some (component_design_info cmp)\<rparr>
           (ga_openrouter_key A) []
           (w1\<lparr>trace := trace w1 @ [Component_call (dget (d_name cmp) ''Unknown'') urls1]\<rparr>)
         = (r, w3)"
  shows "generate_loop E A (cmp # rest) components urls w =
      (case r of
         Inl e \<Rightarrow> (Some e, components, urls1, w3)
       | Inr None \<Rightarrow> generate_loop E A rest components urls1 w3
       | Inr (Some comp_code) \<Rightarrow>
           if comp_code \<noteq> []
           then generate_loop E A rest
                  (dict_set components (dget (d_name cmp) ''Unknown'') (Markup comp_code)) urls1 w3
           else generate_loop E A rest components urls1 w3)"
  using assms by (simp add: generate_loop.simps Let_def)



section \<open>Properties of the steps after the main loop\<close>







lemma all_markup_Nil [simp]: "all_markup []"
  by (simp add: all_markup_def)

section \<open>The main loop when the text provider answers every call\<close>










section \<open>Facts about the concrete inputs\<close>



section \<open>The claims about the component generator\<close>





text \<open>
  Claim C10: for a descriptor whose image prompt is empty or missing, image generation
  returns no reference and leaves the state as it is (no call to the image provider); the
  loop then appends nothing to the image list, hands the component to
  \<^verbatim>\<open>generate_component\<close> with the image list unchanged, and the text provider is called.
\<close>

theorem empty_prompt_no_image:
  assumes "dget (d_image_prompt cmp) [] = []"
  shows "generate_image_for_component E cmp ts client w = (None, w)
     \<and> image_phase E A cmp urls w = (urls, w)
     \<and> fst (snd (snd (generate_loop E A [cmp] components urls w))) = urls
     \<and> trace (snd (snd (snd (generate_loop E A [cmp] components urls w))))
         = trace w @ [Component_call (comp_name_of cmp) urls]
     \<and> image_calls (snd (snd (snd (generate_loop E A [cmp] components urls w)))) = image_calls w
     \<and> length (text_calls w)
         < length (text_calls (snd (snd (snd (generate_loop E A [cmp] components urls w)))))"
proof -
  have a: "generate_image_for_component E cmp ts' client' w = (None, w)" for ts' client'
    using assms by (simp add: generate_image_for_component_def Let_def)
  have b: "image_phase E A cmp urls w = (urls, w)"
    by (simp add: image_phase_def a)
  let ?w2 = "w\<lparr>trace := trace w @ [Component_call (dget (d_name cmp) ''Unknown'') urls]\<rparr>"
  let ?req = "\<lparr>cr_name = dget (d_name cmp) ''Unknown'', cr_purpose = dget (d_purpose cmp) ''Component'',
            cr_image_urls = urls, cr_design_info = Some (component_design_info cmp)\<rparr>"
  obtain r w3 where G: "generate_component E (ga_form_data A) ?req (ga_openrouter_key A) [] ?w2 = (r, w3)"
    by (metis prod.collapse)
  have "trace (snd (r, w3)) = trace ?w2 \<and> image_calls (snd (r, w3)) = image_calls ?w2
        \<and> length (text_calls ?w2) < length (text_calls (snd (r, w3)))"
    unfolding G[symmetric] using generate_component_frame by blast
  then have f: "trace w3 = trace w @ [Component_call (comp_name_of cmp) urls]"
    "image_calls w3 = image_calls w" "length (text_calls w) < length (text_calls w3)"
    by (simp_all add: comp_name_of_def)
  have "\<exists>c'. generate_loop E A [cmp] components urls w = (case r of Inl e \<Rightarrow> Some e | Inr x \<Rightarrow> None, c', urls, w3)"
    using generate_loop_Cons[OF b G, of "[]" components]
    by (cases r) (auto simp: generate_loop.simps split: option.split)
  then obtain c' where "generate_loop E A [cmp] components urls w
      = (case r of Inl e \<Rightarrow> Some e | Inr x \<Rightarrow> None, c', urls, w3)"
    by - (erule exE, erule that)
  with a[of ts client] b f show ?thesis by simp
qed

theorem empty_prompt_no_image_witness:
  "dget (d_image_prompt compat_hero) [] = [] \<and> d_needs_image compat_hero = Some True
   \<and> generate_image_for_component (collab_of always_content no_parse no_image) compat_hero
        ''20250101_120000'' (Some ''o1'') (fresh_world [''k1''] [''o1''])
       = (None, fresh_world [''k1''] [''o1''])
   \<and> fst (snd (snd (generate_loop (collab_of always_content no_parse no_image) example_args
        [compat_hero] [] [] (fresh_world [''k1''] [''o1''])))) = []
   \<and> trace (snd (snd (snd (generate_loop (collab_of always_content no_parse no_image) example_args
        [compat_hero] [] [] (fresh_world [''k1''] [''o1''])))))
       = [Component_call ''Hero'' []]
   \<and> image_calls (snd (snd (snd (generate_loop (collab_of always_content no_parse no_image)
        example_args [compat_hero] [] [] (fresh_world [''k1''] [''o1''])))))  = []"
proof -
  have h: "dget (d_image_prompt compat_hero) [] = []" "d_needs_image compat_hero = Some True"
    "comp_name_of compat_hero = ''Hero''"
    by (simp_all add: compat_hero_def empty_descriptor_def dget_def comp_name_of_def)
  from empty_prompt_no_image[OF h(1), of "collab_of always_content no_parse no_image"
      "''20250101_120000''" "Some ''o1''" "fresh_world [''k1''] [''o1'']" example_args "[]" "[]"] h
  show ?thesis by (simp add: fresh_world_def)
qed

end
